theory Spec2Isabelle
  imports Main "HOL-Library.Sublist"
begin

section \<open>The step catalog of build_incremental.py\<close>

text \<open>
  Every entry of the list \<^verbatim>\<open>BUILD_STEPS\<close> is a dictionary with exactly the keys
  \<^verbatim>\<open>"name"\<close>, \<^verbatim>\<open>"files"\<close> and \<^verbatim>\<open>"frameworks"\<close>, holding a string and two lists of
  strings. A step is therefore a record with these three fields; a dictionary that lacks
  one of the keys (on which \<^verbatim>\<open>step['name']\<close> would raise KeyError) is not a step.
\<close>

record step =
  name :: string
  files :: "string list"
  frameworks :: "string list"

text \<open>The literal of lines 12 to 78, entry by entry and in the order of the source.\<close>

definition BUILD_STEPS :: "step list" where
  "BUILD_STEPS = [
    \<lparr>name = ''Step 1: SwiftUI + Models'',
      files = [''TaskLockApp.swift'', ''ContentView.swift'', ''Models.swift''],
      frameworks = [''SwiftUI'']\<rparr>,
    \<lparr>name = ''Step 2: Add PersistenceController'',
      files = [''TaskLockApp.swift'', ''ContentView.swift'', ''Models.swift'', ''PersistenceController.swift''],
      frameworks = [''SwiftUI'']\<rparr>,
    \<lparr>name = ''Step 3: Add Combine Framework'',
      files = [''TaskLockApp.swift'', ''ContentView.swift'', ''Models.swift'', ''PersistenceController.swift''],
      frameworks = [''SwiftUI'', ''Combine'']\<rparr>,
    \<lparr>name = ''Step 4: Add NotificationManager'',
      files = [''TaskLockApp.swift'', ''ContentView.swift'', ''Models.swift'', ''PersistenceController.swift'', ''NotificationManager.swift''],
      frameworks = [''SwiftUI'', ''Combine'', ''UserNotifications'']\<rparr>,
    \<lparr>name = ''Step 5: Add TaskManager'',
      files = [''TaskLockApp.swift'', ''ContentView.swift'', ''Models.swift'', ''PersistenceController.swift'', ''NotificationManager.swift'', ''TaskManager.swift''],
      frameworks = [''SwiftUI'', ''Combine'', ''UserNotifications'']\<rparr>,
    \<lparr>name = ''Step 6: Add BlockingManager'',
      files = [''TaskLockApp.swift'', ''ContentView.swift'', ''Models.swift'', ''PersistenceController.swift'', ''NotificationManager.swift'', ''TaskManager.swift'', ''BlockingManager.swift''],
      frameworks = [''SwiftUI'', ''Combine'', ''UserNotifications'', ''FamilyControls'', ''ManagedSettings'', ''DeviceActivity'']\<rparr>,
    \<lparr>name = ''Step 7: Add PolicyEngine'',
      files = [''TaskLockApp.swift'', ''ContentView.swift'', ''Models.swift'', ''PersistenceController.swift'', ''NotificationManager.swift'', ''TaskManager.swift'', ''BlockingManager.swift'', ''PolicyEngine.swift''],
      frameworks = [''SwiftUI'', ''Combine'', ''UserNotifications'', ''FamilyControls'', ''ManagedSettings'', ''DeviceActivity'']\<rparr>,
    \<lparr>name = ''Step 8: Add AnalyticsManager'',
      files = [''TaskLockApp.swift'', ''ContentView.swift'', ''Models.swift'', ''PersistenceController.swift'', ''NotificationManager.swift'', ''TaskManager.swift'', ''BlockingManager.swift'', ''PolicyEngine.swift'', ''AnalyticsManager.swift''],
      frameworks = [''SwiftUI'', ''Combine'', ''UserNotifications'', ''FamilyControls'', ''ManagedSettings'', ''DeviceActivity'']\<rparr>,
    \<lparr>name = ''Step 9: Add PhysicalUnlockManager'',
      files = [''TaskLockApp.swift'', ''ContentView.swift'', ''Models.swift'', ''PersistenceController.swift'', ''NotificationManager.swift'', ''TaskManager.swift'', ''BlockingManager.swift'', ''PolicyEngine.swift'', ''AnalyticsManager.swift'', ''PhysicalUnlockManager.swift''],
      frameworks = [''SwiftUI'', ''Combine'', ''UserNotifications'', ''FamilyControls'', ''ManagedSettings'', ''DeviceActivity'']\<rparr>,
    \<lparr>name = ''Step 10: Add AppState'',
      files = [''TaskLockApp.swift'', ''ContentView.swift'', ''Models.swift'', ''PersistenceController.swift'', ''NotificationManager.swift'', ''TaskManager.swift'', ''BlockingManager.swift'', ''PolicyEngine.swift'', ''AnalyticsManager.swift'', ''PhysicalUnlockManager.swift'', ''AppState.swift''],
      frameworks = [''SwiftUI'', ''Combine'', ''UserNotifications'', ''FamilyControls'', ''ManagedSettings'', ''DeviceActivity'']\<rparr>,
    \<lparr>name = ''Step 11: Add Charts Framework'',
      files = [''TaskLockApp.swift'', ''ContentView.swift'', ''Models.swift'', ''PersistenceController.swift'', ''NotificationManager.swift'', ''TaskManager.swift'', ''BlockingManager.swift'', ''PolicyEngine.swift'', ''AnalyticsManager.swift'', ''PhysicalUnlockManager.swift'', ''AppState.swift''],
      frameworks = [''SwiftUI'', ''Combine'', ''UserNotifications'', ''FamilyControls'', ''ManagedSettings'', ''DeviceActivity'', ''Charts'']\<rparr>,
    \<lparr>name = ''Step 12: Add MainTabView'',
      files = [''TaskLockApp.swift'', ''ContentView.swift'', ''Models.swift'', ''PersistenceController.swift'', ''NotificationManager.swift'', ''TaskManager.swift'', ''BlockingManager.swift'', ''PolicyEngine.swift'', ''AnalyticsManager.swift'', ''PhysicalUnlockManager.swift'', ''AppState.swift'', ''MainTabView.swift''],
      frameworks = [''SwiftUI'', ''Combine'', ''UserNotifications'', ''FamilyControls'', ''ManagedSettings'', ''DeviceActivity'', ''Charts'']\<rparr>,
    \<lparr>name = ''Step 13: Add All View Components'',
      files = [''TaskLockApp.swift'', ''ContentView.swift'', ''Models.swift'', ''PersistenceController.swift'', ''NotificationManager.swift'', ''TaskManager.swift'', ''BlockingManager.swift'', ''PolicyEngine.swift'', ''AnalyticsManager.swift'', ''PhysicalUnlockManager.swift'', ''AppState.swift'', ''MainTabView.swift'', ''TaskViews.swift'', ''AddEditTaskViews.swift'', ''CategoryViews.swift'', ''AnalyticsViews.swift'', ''SettingsViews.swift'', ''BlockingOverlay.swift''],
      frameworks = [''SwiftUI'', ''Combine'', ''UserNotifications'', ''FamilyControls'', ''ManagedSettings'', ''DeviceActivity'', ''Charts'']\<rparr>
  ]"

section \<open>Python library functions used by the script\<close>

text \<open>\<^verbatim>\<open>str(i)\<close> on an integer, as the f-string \<^verbatim>\<open>{i}\<close> formats it: decimal digits,
  a minus sign for a negative number.\<close>

fun str_nat :: "nat \<Rightarrow> string" where
  "str_nat n =
     (if n < 10 then [''0123456789'' ! n]
      else str_nat (n div 10) @ [''0123456789'' ! (n mod 10)])"

declare str_nat.simps [simp del]

definition str_int :: "int \<Rightarrow> string" where
  "str_int i = (if i < 0 then ''-'' @ str_nat (nat (- i)) else str_nat (nat i))"

text \<open>\<^verbatim>\<open>sep.join(xs)\<close> on a list of strings.\<close>

fun join :: "string \<Rightarrow> string list \<Rightarrow> string" where
  "join sep [] = []"
| "join sep [x] = x"
| "join sep (x # y # ys) = x @ sep @ join sep (y # ys)"

text \<open>\<^verbatim>\<open>enumerate(xs, start)\<close>, as the list of the pairs it yields.\<close>

fun py_enumerate :: "'a list \<Rightarrow> int \<Rightarrow> (int \<times> 'a) list" where
  "py_enumerate [] start = []"
| "py_enumerate (x # xs) start = (start, x) # py_enumerate xs (start + 1)"

section \<open>The state the script runs in\<close>

text \<open>
  What a run of the script could touch: the characters written to standard output, the
  module's global \<^verbatim>\<open>BUILD_STEPS\<close> (a mutable list of mutable dictionaries), the files
  on disk (the module imports \<^verbatim>\<open>os\<close>; the docstrings speak of project.pbxproj) and the
  commands started through \<^verbatim>\<open>subprocess\<close> (xcodebuild, git).
\<close>

record world =
  stdout :: string
  build_steps :: "step list"
  filesystem :: "string \<rightharpoonup> string"
  subprocesses :: "string list list"

text \<open>The value a call returns; a function body without \<^verbatim>\<open>return\<close> returns None.\<close>

datatype pyvalue = PyNone | PyStr string | PyInt int | PyBool bool

text \<open>\<^verbatim>\<open>print(s)\<close> with one string argument writes the string and a line break.\<close>

definition print :: "string \<Rightarrow> world \<Rightarrow> pyvalue \<times> world" where
  "print s w = (PyNone, w\<lparr>stdout := stdout w @ s @ [CHR 0x0A]\<rparr>)"

section \<open>The functions of the script\<close>

text \<open>
  \<^verbatim>\<open>update_project_file(step)\<close>: the argument is a reference to a mutable dictionary, so
  the model returns the dictionary as it is after the call beside the returned value.
\<close>

definition update_project_file :: "step \<Rightarrow> world \<Rightarrow> pyvalue \<times> step \<times> world" where
  "update_project_file step w =
     (let (_, w1) = print (''Updating project for '' @ name step) w
      in (PyNone, step, w1))"

definition test_build :: "world \<Rightarrow> pyvalue \<times> world" where
  "test_build w =
     (let (_, w1) = print ''Testing build...'' w
      in (PyNone, w1))"

text \<open>The body of the \<^verbatim>\<open>for\<close> loop of \<^verbatim>\<open>main\<close>, run over the pairs of \<^verbatim>\<open>enumerate\<close>.\<close>

fun main_loop :: "(int \<times> step) list \<Rightarrow> world \<Rightarrow> world" where
  "main_loop [] w = w"
| "main_loop ((i, step) # rest) w =
     (let (_, w1) = print ([CHR 0x0A] @ str_int i @ ''. '' @ name step) w;
          (_, w2) = print (''   Files: '' @ join '', '' (files step)) w1;
          (_, w3) = print (''   Frameworks: '' @ join '', '' (frameworks step)) w2
      in main_loop rest w3)"

definition main :: "world \<Rightarrow> pyvalue \<times> world" where
  "main w =
     (let (_, w1) = print ''TaskLock Incremental Build Script'' w;
          (_, w2) = print (replicate 40 CHR ''='') w1;
          w3 = main_loop (py_enumerate (build_steps w2) 1) w2
      in (PyNone, w3))"

text \<open>Running the module as a script: the assignment to \<^verbatim>\<open>BUILD_STEPS\<close>, the three
  function definitions, then \<^verbatim>\<open>main()\<close> under the \<^verbatim>\<open>__main__\<close> guard.\<close>

definition script :: "world \<Rightarrow> world" where
  "script w = snd (main (w\<lparr>build_steps := BUILD_STEPS\<rparr>))"

section \<open>Notions of the specification\<close>

text \<open>
  What the catalog report holds for the step at the 1-based position \<open>i\<close>: an empty line,
  the position and the name, a line with the files joined by a comma and a blank, a line
  with the frameworks joined the same way.
\<close>

definition step_report :: "int \<Rightarrow> step \<Rightarrow> string" where
  "step_report i s =
     [CHR 0x0A] @ str_int i @ ''. '' @ name s @ [CHR 0x0A] @
     ''   Files: '' @ join '', '' (files s) @ [CHR 0x0A] @
     ''   Frameworks: '' @ join '', '' (frameworks s) @ [CHR 0x0A]"

definition catalog_report :: "step list \<Rightarrow> string" where
  "catalog_report steps =
     concat (map (\<lambda>k. step_report (int k + 1) (steps ! k)) [0..<length steps])"

definition header :: string where
  "header = ''TaskLock Incremental Build Script'' @ [CHR 0x0A] @ replicate 40 CHR ''='' @ [CHR 0x0A]"

text \<open>The increment of a step over its predecessor: the entries newly introduced, in the
  order of the later step.\<close>

definition increment :: "string list \<Rightarrow> string list \<Rightarrow> string list" where
  "increment prev cur = filter (\<lambda>x. x \<notin> set prev) cur"

section \<open>Auxiliary facts\<close>

lemma BUILD_STEPS_length: "length BUILD_STEPS = 13"
  by (simp add: BUILD_STEPS_def)

text \<open>A relation that holds between neighbours holds between the steps at the 1-based
  positions \<open>i - 1\<close> and \<open>i\<close>.\<close>

lemma successively_nth_1based:
  assumes "successively P xs" and "1 < i" and "i \<le> length xs"
  shows "P (xs ! (i - 2)) (xs ! (i - 1))"
proof -
  from assms(2,3) have "Suc (i - 2) < length xs" and "Suc (i - 2) = i - 1"
    by arith+
  with assms(1) show ?thesis
    by (metis successively_conv_nth)
qed

lemma files_successively:
  "successively (\<lambda>a b. prefix (files a) (files b)) BUILD_STEPS"
  by (simp add: BUILD_STEPS_def)

lemma frameworks_successively:
  "successively (\<lambda>a b. prefix (frameworks a) (frameworks b)) BUILD_STEPS"
  by (simp add: BUILD_STEPS_def)

section \<open>Monotonicity of the catalog\<close>

text \<open>
  Claim C1. For every step \<open>i > 1\<close> of \<^verbatim>\<open>BUILD_STEPS\<close> (positions counted from 1, so the
  step is \<open>BUILD_STEPS ! (i - 1)\<close>), the files of step \<open>i - 1\<close> are, in order, a prefix of
  the files of step \<open>i\<close>, hence a subset of them; and the files of the first step are not
  empty.
\<close>

theorem files_prefix_monotone:
  "files (BUILD_STEPS ! 0) \<noteq> [] \<and>
   (\<forall>i. 1 < i \<and> i \<le> length BUILD_STEPS \<longrightarrow>
      prefix (files (BUILD_STEPS ! (i - 2))) (files (BUILD_STEPS ! (i - 1))) \<and>
      set (files (BUILD_STEPS ! (i - 2))) \<subseteq> set (files (BUILD_STEPS ! (i - 1))))"
proof (intro conjI allI impI)
  show "files (BUILD_STEPS ! 0) \<noteq> []"
    by (simp add: BUILD_STEPS_def)
next
  fix i assume "1 < i \<and> i \<le> length BUILD_STEPS"
  then have "1 < i" and "i \<le> length BUILD_STEPS" by simp_all
  then show "prefix (files (BUILD_STEPS ! (i - 2))) (files (BUILD_STEPS ! (i - 1)))"
    by (rule successively_nth_1based [OF files_successively])
  then show "set (files (BUILD_STEPS ! (i - 2))) \<subseteq> set (files (BUILD_STEPS ! (i - 1)))"
    by (rule set_mono_prefix)
qed

text \<open>The last step, the one that adds six files at once, as an instance.\<close>

theorem files_prefix_monotone_witness:
  "(1::nat) < 13 \<and> 13 \<le> length BUILD_STEPS \<and>
   prefix (files (BUILD_STEPS ! (13 - 2))) (files (BUILD_STEPS ! (13 - 1))) \<and>
   length (files (BUILD_STEPS ! (13 - 2))) = 12 \<and>
   length (files (BUILD_STEPS ! (13 - 1))) = 18"
proof -
  have h: "(1::nat) < 13 \<and> 13 \<le> length BUILD_STEPS"
    by (simp add: BUILD_STEPS_length)
  have "\<forall>i. 1 < i \<and> i \<le> length BUILD_STEPS \<longrightarrow>
      prefix (files (BUILD_STEPS ! (i - 2))) (files (BUILD_STEPS ! (i - 1))) \<and>
      set (files (BUILD_STEPS ! (i - 2))) \<subseteq> set (files (BUILD_STEPS ! (i - 1)))"
    using files_prefix_monotone by (rule conjunct2)
  then have "(1::nat) < 13 \<and> 13 \<le> length BUILD_STEPS \<longrightarrow>
      prefix (files (BUILD_STEPS ! (13 - 2))) (files (BUILD_STEPS ! (13 - 1))) \<and>
      set (files (BUILD_STEPS ! (13 - 2))) \<subseteq> set (files (BUILD_STEPS ! (13 - 1)))"
    by (rule spec)
  then have "prefix (files (BUILD_STEPS ! (13 - 2))) (files (BUILD_STEPS ! (13 - 1))) \<and>
      set (files (BUILD_STEPS ! (13 - 2))) \<subseteq> set (files (BUILD_STEPS ! (13 - 1)))"
    using h by (rule mp)
  then have p: "prefix (files (BUILD_STEPS ! (13 - 2))) (files (BUILD_STEPS ! (13 - 1)))"
    by (rule conjunct1)
  have l: "length (files (BUILD_STEPS ! (13 - 2))) = 12 \<and>
           length (files (BUILD_STEPS ! (13 - 1))) = 18"
    by (simp add: BUILD_STEPS_def)
  from h p l show ?thesis by (intro conjI) simp_all
qed

text \<open>
  Claim C2. The same for the frameworks: for every step \<open>i > 1\<close> the frameworks of step
  \<open>i - 1\<close> are, in order, a prefix and hence a subset of the frameworks of step \<open>i\<close>, and
  the frameworks of the first step are not empty.
\<close>

theorem frameworks_prefix_monotone:
  "frameworks (BUILD_STEPS ! 0) \<noteq> [] \<and>
   (\<forall>i. 1 < i \<and> i \<le> length BUILD_STEPS \<longrightarrow>
      prefix (frameworks (BUILD_STEPS ! (i - 2))) (frameworks (BUILD_STEPS ! (i - 1))) \<and>
      set (frameworks (BUILD_STEPS ! (i - 2))) \<subseteq> set (frameworks (BUILD_STEPS ! (i - 1))))"
proof (intro conjI allI impI)
  show "frameworks (BUILD_STEPS ! 0) \<noteq> []"
    by (simp add: BUILD_STEPS_def)
next
  fix i assume "1 < i \<and> i \<le> length BUILD_STEPS"
  then have "1 < i" and "i \<le> length BUILD_STEPS" by simp_all
  then show "prefix (frameworks (BUILD_STEPS ! (i - 2))) (frameworks (BUILD_STEPS ! (i - 1)))"
    by (rule successively_nth_1based [OF frameworks_successively])
  then show "set (frameworks (BUILD_STEPS ! (i - 2))) \<subseteq> set (frameworks (BUILD_STEPS ! (i - 1)))"
    by (rule set_mono_prefix)
qed

text \<open>Step 6, which brings three frameworks at once, as an instance.\<close>

theorem frameworks_prefix_monotone_witness:
  "(1::nat) < 6 \<and> 6 \<le> length BUILD_STEPS \<and>
   prefix (frameworks (BUILD_STEPS ! (6 - 2))) (frameworks (BUILD_STEPS ! (6 - 1))) \<and>
   frameworks (BUILD_STEPS ! (6 - 2)) = [''SwiftUI'', ''Combine'', ''UserNotifications''] \<and>
   frameworks (BUILD_STEPS ! (6 - 1)) =
     [''SwiftUI'', ''Combine'', ''UserNotifications'', ''FamilyControls'', ''ManagedSettings'',
      ''DeviceActivity'']"
proof -
  have h: "(1::nat) < 6 \<and> 6 \<le> length BUILD_STEPS"
    by (simp add: BUILD_STEPS_length)
  have "\<forall>i. 1 < i \<and> i \<le> length BUILD_STEPS \<longrightarrow>
      prefix (frameworks (BUILD_STEPS ! (i - 2))) (frameworks (BUILD_STEPS ! (i - 1))) \<and>
      set (frameworks (BUILD_STEPS ! (i - 2))) \<subseteq> set (frameworks (BUILD_STEPS ! (i - 1)))"
    using frameworks_prefix_monotone by (rule conjunct2)
  then have "(1::nat) < 6 \<and> 6 \<le> length BUILD_STEPS \<longrightarrow>
      prefix (frameworks (BUILD_STEPS ! (6 - 2))) (frameworks (BUILD_STEPS ! (6 - 1))) \<and>
      set (frameworks (BUILD_STEPS ! (6 - 2))) \<subseteq> set (frameworks (BUILD_STEPS ! (6 - 1)))"
    by (rule spec)
  then have "prefix (frameworks (BUILD_STEPS ! (6 - 2))) (frameworks (BUILD_STEPS ! (6 - 1))) \<and>
      set (frameworks (BUILD_STEPS ! (6 - 2))) \<subseteq> set (frameworks (BUILD_STEPS ! (6 - 1)))"
    using h by (rule mp)
  then have p: "prefix (frameworks (BUILD_STEPS ! (6 - 2))) (frameworks (BUILD_STEPS ! (6 - 1)))"
    by (rule conjunct1)
  have l: "frameworks (BUILD_STEPS ! (6 - 2)) = [''SwiftUI'', ''Combine'', ''UserNotifications''] \<and>
    frameworks (BUILD_STEPS ! (6 - 1)) =
     [''SwiftUI'', ''Combine'', ''UserNotifications'', ''FamilyControls'', ''ManagedSettings'',
      ''DeviceActivity'']"
    by (simp add: BUILD_STEPS_def)
  from h p l show ?thesis by (intro conjI) simp_all
qed

section \<open>Step names and positions\<close>

lemma py_enumerate_all:
  "list_all (\<lambda>(i, s). P i s) (py_enumerate xs n) \<longleftrightarrow>
   (\<forall>k < length xs. P (n + int k) (xs ! k))"
proof (induction xs arbitrary: n)
  case Nil
  then show ?case by simp
next
  case (Cons x xs)
  have "(\<forall>k < Suc (length xs). P (n + int k) ((x # xs) ! k)) \<longleftrightarrow>
        P n x \<and> (\<forall>k < length xs. P (n + 1 + int k) (xs ! k))"
    by (simp add: All_less_Suc2 ac_simps)
  with Cons show ?case by simp
qed

text \<open>Numbered as \<^verbatim>\<open>enumerate(BUILD_STEPS, 1)\<close> numbers them, a step's name begins with
  \<^verbatim>\<open>Step j:\<close> for its own number and for no other number of the catalog.\<close>

lemma names_enumerated:
  "list_all (\<lambda>(i, s).
      list_all (\<lambda>(j, t). prefix (''Step '' @ str_int j @ '':'') (name s) = (j = i))
        (py_enumerate BUILD_STEPS 1))
     (py_enumerate BUILD_STEPS 1)"
  by (simp add: BUILD_STEPS_def str_int_def str_nat.simps)

lemma names_by_position:
  assumes "1 \<le> i" "i \<le> length BUILD_STEPS" "1 \<le> j" "j \<le> length BUILD_STEPS"
  shows "prefix (''Step '' @ str_int (int j) @ '':'') (name (BUILD_STEPS ! (i - 1))) = (j = i)"
proof -
  have all: "\<forall>k < length BUILD_STEPS. \<forall>l < length BUILD_STEPS.
      prefix (''Step '' @ str_int (1 + int l) @ '':'') (name (BUILD_STEPS ! k)) =
      (1 + int l = 1 + int k)"
    using names_enumerated by (simp only: py_enumerate_all)
  from assms have "i - 1 < length BUILD_STEPS" "j - 1 < length BUILD_STEPS"
    and ij: "1 + int (i - 1) = int i" "1 + int (j - 1) = int j"
    by simp_all
  with all have "prefix (''Step '' @ str_int (int j) @ '':'') (name (BUILD_STEPS ! (i - 1))) =
      (int j = int i)"
    by metis
  then show ?thesis by simp
qed

text \<open>
  Claim C3. The catalog is not empty and has 13 steps; for every position \<open>i\<close> from 1 to
  13 the name of the step at that position begins with \<^verbatim>\<open>Step i:\<close>, and with
  \<^verbatim>\<open>Step j:\<close> for no other \<open>j\<close> from 1 to 13, so that the numbers in the names run
  1, 2, ..., 13 without a gap and without a repeat.
\<close>

theorem step_names_contiguous:
  "BUILD_STEPS \<noteq> [] \<and> length BUILD_STEPS = 13 \<and>
   (\<forall>i. 1 \<le> i \<and> i \<le> length BUILD_STEPS \<longrightarrow>
      prefix (''Step '' @ str_int (int i) @ '':'') (name (BUILD_STEPS ! (i - 1)))) \<and>
   (\<forall>i j. 1 \<le> i \<and> i \<le> length BUILD_STEPS \<and> 1 \<le> j \<and> j \<le> length BUILD_STEPS \<and>
      prefix (''Step '' @ str_int (int j) @ '':'') (name (BUILD_STEPS ! (i - 1))) \<longrightarrow> j = i)"
proof (intro conjI allI impI)
  show "BUILD_STEPS \<noteq> []"
    by (simp add: BUILD_STEPS_def)
  show "length BUILD_STEPS = 13"
    by (rule BUILD_STEPS_length)
next
  fix i assume "1 \<le> i \<and> i \<le> length BUILD_STEPS"
  then have i: "1 \<le> i" "i \<le> length BUILD_STEPS" by simp_all
  show "prefix (''Step '' @ str_int (int i) @ '':'') (name (BUILD_STEPS ! (i - 1)))"
    by (rule iffD2 [OF names_by_position [OF i i] refl])
next
  fix i j
  assume "1 \<le> i \<and> i \<le> length BUILD_STEPS \<and> 1 \<le> j \<and> j \<le> length BUILD_STEPS \<and>
      prefix (''Step '' @ str_int (int j) @ '':'') (name (BUILD_STEPS ! (i - 1)))"
  then have i: "1 \<le> i" "i \<le> length BUILD_STEPS" and j: "1 \<le> j" "j \<le> length BUILD_STEPS"
    and p: "prefix (''Step '' @ str_int (int j) @ '':'') (name (BUILD_STEPS ! (i - 1)))"
    by simp_all
  show "j = i"
    by (rule iffD1 [OF names_by_position [OF i j] p])
qed

text \<open>Position 10, whose number has two digits and begins with the digit of position 1.\<close>

theorem step_names_contiguous_witness:
  "(1::nat) \<le> 10 \<and> 10 \<le> length BUILD_STEPS \<and>
   prefix (''Step '' @ str_int (int 10) @ '':'') (name (BUILD_STEPS ! (10 - 1))) \<and>
   ''Step '' @ str_int (int 10) @ '':'' = ''Step 10:'' \<and>
   name (BUILD_STEPS ! (10 - 1)) = ''Step 10: Add AppState''"
proof -
  have h: "(1::nat) \<le> 10 \<and> 10 \<le> length BUILD_STEPS"
    by (simp add: BUILD_STEPS_length)
  have "\<forall>i. 1 \<le> i \<and> i \<le> length BUILD_STEPS \<longrightarrow>
      prefix (''Step '' @ str_int (int i) @ '':'') (name (BUILD_STEPS ! (i - 1)))"
    using step_names_contiguous by (elim conjE)
  then have "(1::nat) \<le> 10 \<and> 10 \<le> length BUILD_STEPS \<longrightarrow>
      prefix (''Step '' @ str_int (int 10) @ '':'') (name (BUILD_STEPS ! (10 - 1)))"
    by (rule spec)
  then have p: "prefix (''Step '' @ str_int (int 10) @ '':'') (name (BUILD_STEPS ! (10 - 1)))"
    using h by (rule mp)
  have s: "''Step '' @ str_int (int 10) @ '':'' = ''Step 10:''"
    by (simp add: str_int_def str_nat.simps)
  have n: "name (BUILD_STEPS ! (10 - 1)) = ''Step 10: Add AppState''"
    by (simp add: BUILD_STEPS_def)
  from h p s n show ?thesis by (intro conjI) simp_all
qed

section \<open>Consecutive steps\<close>

text \<open>
  Claim C4, as stated: the files list is the same at steps 9 and 10. It is not: the
  entries at positions 9 and 10 (indices 8 and 9 of the list) have different files lists.
\<close>

theorem files_step9_step10_counterexample:
  "\<not> (files (BUILD_STEPS ! 8) = files (BUILD_STEPS ! 9))"
  by (simp add: BUILD_STEPS_def)

text \<open>
  Claim C4, amended. Between steps 9 and 10 it is the frameworks list that stays the
  same; the files lists differ in \<^verbatim>\<open>AppState.swift\<close> alone, which step 10 appends
  to the files of step 9 and which step 9 does not have.
\<close>

theorem step9_step10_differ_in_AppState:
  "name (BUILD_STEPS ! 8) = ''Step 9: Add PhysicalUnlockManager'' \<and>
   name (BUILD_STEPS ! 9) = ''Step 10: Add AppState'' \<and>
   frameworks (BUILD_STEPS ! 9) = frameworks (BUILD_STEPS ! 8) \<and>
   files (BUILD_STEPS ! 9) = files (BUILD_STEPS ! 8) @ [''AppState.swift''] \<and>
   ''AppState.swift'' \<notin> set (files (BUILD_STEPS ! 8))"
  by (simp add: BUILD_STEPS_def)

lemma no_noop_successively:
  "successively (\<lambda>a b. files a \<noteq> files b \<or> frameworks a \<noteq> frameworks b) BUILD_STEPS"
  by (simp add: BUILD_STEPS_def)

text \<open>
  Claim C5. No step repeats its predecessor: for every step \<open>i > 1\<close>, steps \<open>i - 1\<close> and
  \<open>i\<close> differ in their files list or in their frameworks list.
\<close>

theorem no_step_is_noop:
  "\<forall>i. 1 < i \<and> i \<le> length BUILD_STEPS \<longrightarrow>
      files (BUILD_STEPS ! (i - 2)) \<noteq> files (BUILD_STEPS ! (i - 1)) \<or>
      frameworks (BUILD_STEPS ! (i - 2)) \<noteq> frameworks (BUILD_STEPS ! (i - 1))"
proof (intro allI impI)
  fix i assume "1 < i \<and> i \<le> length BUILD_STEPS"
  then have "1 < i" and "i \<le> length BUILD_STEPS" by simp_all
  then show "files (BUILD_STEPS ! (i - 2)) \<noteq> files (BUILD_STEPS ! (i - 1)) \<or>
      frameworks (BUILD_STEPS ! (i - 2)) \<noteq> frameworks (BUILD_STEPS ! (i - 1))"
    by (rule successively_nth_1based [OF no_noop_successively])
qed

text \<open>Step 3, which keeps the files of step 2 and adds a framework, as an instance.\<close>

theorem no_step_is_noop_witness:
  "(1::nat) < 3 \<and> 3 \<le> length BUILD_STEPS \<and>
   files (BUILD_STEPS ! (3 - 2)) = files (BUILD_STEPS ! (3 - 1)) \<and>
   frameworks (BUILD_STEPS ! (3 - 2)) \<noteq> frameworks (BUILD_STEPS ! (3 - 1))"
proof -
  have h: "(1::nat) < 3 \<and> 3 \<le> length BUILD_STEPS"
    by (simp add: BUILD_STEPS_length)
  have "(1::nat) < 3 \<and> 3 \<le> length BUILD_STEPS \<longrightarrow>
      files (BUILD_STEPS ! (3 - 2)) \<noteq> files (BUILD_STEPS ! (3 - 1)) \<or>
      frameworks (BUILD_STEPS ! (3 - 2)) \<noteq> frameworks (BUILD_STEPS ! (3 - 1))"
    using no_step_is_noop by (rule spec)
  then have d: "files (BUILD_STEPS ! (3 - 2)) \<noteq> files (BUILD_STEPS ! (3 - 1)) \<or>
      frameworks (BUILD_STEPS ! (3 - 2)) \<noteq> frameworks (BUILD_STEPS ! (3 - 1))"
    using h by (rule mp)
  have e: "files (BUILD_STEPS ! (3 - 2)) = files (BUILD_STEPS ! (3 - 1))"
    by (simp add: BUILD_STEPS_def)
  from d e have "frameworks (BUILD_STEPS ! (3 - 2)) \<noteq> frameworks (BUILD_STEPS ! (3 - 1))"
    by (elim disjE) (rule notE, assumption+)
  with h e show ?thesis by (intro conjI) simp_all
qed

section \<open>Entries within a step\<close>

text \<open>
  Claim C9. Within every step of the catalog no file is listed twice and no framework is
  listed twice.
\<close>

theorem step_entries_distinct:
  "\<forall>s \<in> set BUILD_STEPS. distinct (files s) \<and> distinct (frameworks s)"
  by (simp add: BUILD_STEPS_def)

text \<open>The last step, with its 18 files and 7 frameworks, as an instance.\<close>

theorem step_entries_distinct_witness:
  "BUILD_STEPS ! 12 \<in> set BUILD_STEPS \<and>
   distinct (files (BUILD_STEPS ! 12)) \<and> distinct (frameworks (BUILD_STEPS ! 12)) \<and>
   length (files (BUILD_STEPS ! 12)) = 18 \<and> length (frameworks (BUILD_STEPS ! 12)) = 7"
proof -
  have m: "BUILD_STEPS ! 12 \<in> set BUILD_STEPS"
    by (rule nth_mem) (simp add: BUILD_STEPS_length)
  with step_entries_distinct
  have d: "distinct (files (BUILD_STEPS ! 12)) \<and> distinct (frameworks (BUILD_STEPS ! 12))"
    by (rule bspec)
  have l: "length (files (BUILD_STEPS ! 12)) = 18 \<and> length (frameworks (BUILD_STEPS ! 12)) = 7"
    by (simp add: BUILD_STEPS_def)
  from m d l show ?thesis by (intro conjI) simp_all
qed

section \<open>Increments\<close>

text \<open>
  Claim C10. Between steps 12 and 13 the increment of newly introduced files has more
  than one element: step 13 appends six files to those of step 12, none of which step 12
  has.
\<close>

theorem step13_increment_six_files:
  "name (BUILD_STEPS ! 11) = ''Step 12: Add MainTabView'' \<and>
   name (BUILD_STEPS ! 12) = ''Step 13: Add All View Components'' \<and>
   increment (files (BUILD_STEPS ! 11)) (files (BUILD_STEPS ! 12)) =
     [''TaskViews.swift'', ''AddEditTaskViews.swift'', ''CategoryViews.swift'',
      ''AnalyticsViews.swift'', ''SettingsViews.swift'', ''BlockingOverlay.swift''] \<and>
   files (BUILD_STEPS ! 12) =
     files (BUILD_STEPS ! 11) @ increment (files (BUILD_STEPS ! 11)) (files (BUILD_STEPS ! 12)) \<and>
   length (increment (files (BUILD_STEPS ! 11)) (files (BUILD_STEPS ! 12))) = 6 \<and>
   1 < length (increment (files (BUILD_STEPS ! 11)) (files (BUILD_STEPS ! 12)))"
  by (simp add: BUILD_STEPS_def increment_def)

section \<open>What the functions do to the state\<close>

lemma map_step_report_Cons:
  "map (\<lambda>k. step_report (n + int k) ((x # xs) ! k)) [0..<length (x # xs)] =
   step_report n x # map (\<lambda>k. step_report (n + 1 + int k) (xs ! k)) [0..<length xs]"
  by (simp add: map_upt_Suc ac_simps del: upt_Suc)

text \<open>The loop of \<^verbatim>\<open>main\<close> appends one report per pair, in the order of the pairs, and
  changes nothing else.\<close>

lemma main_loop_effect:
  "main_loop (py_enumerate xs n) w =
     w\<lparr>stdout := stdout w @
        concat (map (\<lambda>k. step_report (n + int k) (xs ! k)) [0..<length xs])\<rparr>"
proof (induction xs arbitrary: n w)
  case Nil
  then show ?case by simp
next
  case (Cons x xs)
  show ?case
    unfolding map_step_report_Cons
    by (simp add: Cons.IH print_def step_report_def)
qed

lemma main_effect:
  "main w = (PyNone, w\<lparr>stdout := stdout w @ header @ catalog_report (build_steps w)\<rparr>)"
proof -
  have "main_loop (py_enumerate (build_steps w) 1) w' =
        w'\<lparr>stdout := stdout w' @ catalog_report (build_steps w)\<rparr>" for w'
    by (simp add: main_loop_effect catalog_report_def ac_simps)
  then show ?thesis
    by (simp add: main_def print_def header_def)
qed

text \<open>
  Claim C6. The functions only print. \<^verbatim>\<open>update_project_file(step)\<close> writes the one
  line \<^verbatim>\<open>Updating project for\<close> followed by the step's name, returns None and leaves the
  step and the rest of the state as they were; \<^verbatim>\<open>test_build()\<close> writes the one line
  \<^verbatim>\<open>Testing build...\<close> and returns None; \<^verbatim>\<open>main()\<close> returns None and only appends to
  standard output: \<^verbatim>\<open>BUILD_STEPS\<close>, the files on disk and the list of started commands
  are what they were before the call. The same holds for the script as a whole, after
  which \<^verbatim>\<open>BUILD_STEPS\<close> still is the catalog of the source.
\<close>

theorem script_only_prints:
  "update_project_file step w =
     (PyNone, step, w\<lparr>stdout := stdout w @ ''Updating project for '' @ name step @ [CHR 0x0A]\<rparr>) \<and>
   test_build w = (PyNone, w\<lparr>stdout := stdout w @ ''Testing build...'' @ [CHR 0x0A]\<rparr>) \<and>
   fst (main w) = PyNone \<and>
   (\<exists>out. snd (main w) = w\<lparr>stdout := stdout w @ out\<rparr>) \<and>
   build_steps (snd (main w)) = build_steps w \<and>
   filesystem (snd (main w)) = filesystem w \<and>
   subprocesses (snd (main w)) = subprocesses w \<and>
   build_steps (script w) = BUILD_STEPS \<and>
   filesystem (script w) = filesystem w \<and>
   subprocesses (script w) = subprocesses w"
proof (intro conjI)
  show "update_project_file step w =
     (PyNone, step, w\<lparr>stdout := stdout w @ ''Updating project for '' @ name step @ [CHR 0x0A]\<rparr>)"
    by (simp add: update_project_file_def print_def)
  show "test_build w = (PyNone, w\<lparr>stdout := stdout w @ ''Testing build...'' @ [CHR 0x0A]\<rparr>)"
    by (simp add: test_build_def print_def)
  show "\<exists>out. snd (main w) = w\<lparr>stdout := stdout w @ out\<rparr>"
    by (rule exI [of _ "header @ catalog_report (build_steps w)"]) (simp add: main_effect)
qed (simp_all add: main_effect script_def)

section \<open>The report of main\<close>

text \<open>
  Claim C7. \<^verbatim>\<open>main()\<close> appends to standard output the two header lines and then, for
  the steps of \<^verbatim>\<open>BUILD_STEPS\<close> in the order of the list and numbered from 1, the report
  of each step: an empty line, the number and the name, the files joined by a comma and a
  blank, the frameworks joined the same way. Nothing else is written, so every step is
  reported once and at its place. Run as a script, the list reported is the catalog of
  the source, with its 13 steps.
\<close>

theorem main_reports_catalog_in_order:
  "stdout (snd (main w)) =
     stdout w @ header @
     concat (map (\<lambda>k. step_report (int k + 1) (build_steps w ! k)) [0..<length (build_steps w)]) \<and>
   stdout (script w) =
     stdout w @ header @
     concat (map (\<lambda>k. step_report (int k + 1) (BUILD_STEPS ! k)) [0..<13])"
  by (simp add: main_effect script_def catalog_report_def BUILD_STEPS_length)

text \<open>The report of the first step of the catalog, written out.\<close>

lemma step_report_first:
  "step_report 1 (BUILD_STEPS ! 0) =
     [CHR 0x0A] @ ''1. Step 1: SwiftUI + Models'' @ [CHR 0x0A] @
     ''   Files: TaskLockApp.swift, ContentView.swift, Models.swift'' @ [CHR 0x0A] @
     ''   Frameworks: SwiftUI'' @ [CHR 0x0A]"
  by (simp add: step_report_def BUILD_STEPS_def str_int_def str_nat.simps)

end
